theory Spec2Isabelle
  imports Complex_Main
begin

text \<open>
  The resizable split view of the transcript editor: two panes side by side, separated
  by a divider that is dragged with the pointer. The repository has two versions of the
  component, \<open>components/layout/ResizableSplitView.jsx\<close>, mounted by \<open>App.jsx\<close>, and
  \<open>ui/components/ResizableSplitView.tsx\<close>, mounted by \<open>App.tsx\<close>. Both are modelled:
  the React state of a component is a record, each event handler a function from state
  to state, and the calls of the parent's callback are logged in the state.
\<close>

section \<open>JavaScript numbers\<close>

text \<open>
  The split ratio, the pointer coordinates and the container measurements are JavaScript
  numbers. Finite values are idealised as exact reals (rounding is not modelled); the
  non-finite values that a division by zero produces are kept, because the handlers
  divide by the measured container width without testing it. Zero is unsigned and
  divides like \<open>+0\<close>, which is what a measured width of zero is.
\<close>

datatype jsnum = Fin real | PInf | NInf | NaN

fun js_neg :: "jsnum \<Rightarrow> jsnum" where
  "js_neg (Fin x) = Fin (- x)"
| "js_neg PInf = NInf"
| "js_neg NInf = PInf"
| "js_neg NaN = NaN"

fun js_add :: "jsnum \<Rightarrow> jsnum \<Rightarrow> jsnum" where
  "js_add NaN _ = NaN"
| "js_add _ NaN = NaN"
| "js_add (Fin x) (Fin y) = Fin (x + y)"
| "js_add PInf NInf = NaN"
| "js_add NInf PInf = NaN"
| "js_add PInf _ = PInf"
| "js_add _ PInf = PInf"
| "js_add NInf _ = NInf"
| "js_add _ NInf = NInf"

definition js_sub :: "jsnum \<Rightarrow> jsnum \<Rightarrow> jsnum" where
  "js_sub a b = js_add a (js_neg b)"

fun js_div :: "jsnum \<Rightarrow> jsnum \<Rightarrow> jsnum" where
  "js_div NaN _ = NaN"
| "js_div _ NaN = NaN"
| "js_div (Fin x) (Fin y) =
     (if y = 0 then (if x = 0 then NaN else if 0 < x then PInf else NInf)
      else Fin (x / y))"
| "js_div (Fin x) _ = Fin 0"
| "js_div PInf (Fin y) = (if 0 \<le> y then PInf else NInf)"
| "js_div NInf (Fin y) = (if 0 \<le> y then NInf else PInf)"
| "js_div _ _ = NaN"

text \<open>\<open>Math.max\<close> and \<open>Math.min\<close>: \<open>NaN\<close> as soon as one argument is \<open>NaN\<close>.\<close>

fun js_max :: "jsnum \<Rightarrow> jsnum \<Rightarrow> jsnum" where
  "js_max NaN _ = NaN"
| "js_max _ NaN = NaN"
| "js_max PInf _ = PInf"
| "js_max _ PInf = PInf"
| "js_max NInf b = b"
| "js_max a NInf = a"
| "js_max (Fin x) (Fin y) = Fin (max x y)"

fun js_min :: "jsnum \<Rightarrow> jsnum \<Rightarrow> jsnum" where
  "js_min NaN _ = NaN"
| "js_min _ NaN = NaN"
| "js_min NInf _ = NInf"
| "js_min _ NInf = NInf"
| "js_min PInf b = b"
| "js_min a PInf = a"
| "js_min (Fin x) (Fin y) = Fin (min x y)"

text \<open>The comparison \<open>a <= b\<close>: false as soon as one side is \<open>NaN\<close>.\<close>

fun js_le :: "jsnum \<Rightarrow> jsnum \<Rightarrow> bool" where
  "js_le NaN _ = False"
| "js_le _ NaN = False"
| "js_le NInf _ = True"
| "js_le _ PInf = True"
| "js_le (Fin x) (Fin y) = (x \<le> y)"
| "js_le _ _ = False"

section \<open>The container\<close>

text \<open>
  \<open>containerRef.current\<close> is \<open>null\<close> until the component is mounted (\<open>None\<close>); once
  mounted, \<open>getBoundingClientRect()\<close> returns the rectangle of the moment of the call,
  of which the handlers read \<open>left\<close> and \<open>width\<close>. The rectangle is an input of each
  handler call that measures.
\<close>

record rect =
  rect_left :: real
  rect_width :: real

section \<open>components/layout/ResizableSplitView.jsx\<close>

text \<open>
  Props and React state of the JSX split view. \<open>onSplitRatioChange\<close> records whether the
  parent supplied the callback; \<open>notified\<close> is the list of arguments the callback has
  been called with, oldest first. Each handler is one atomic transition of the state.
\<close>

record split_props =
  initialSplitRatio :: jsnum
  onSplitRatioChange :: bool

record split_state =
  splitRatio :: jsnum
  isDragging :: bool
  notified :: "jsnum list"

definition init :: "split_props \<Rightarrow> split_state" where
  "init p = \<lparr>splitRatio = initialSplitRatio p, isDragging = False, notified = []\<rparr>"

definition handleMouseDown :: "split_state \<Rightarrow> split_state" where
  "handleMouseDown s = s\<lparr>isDragging := True\<rparr>"

definition handleMouseMove ::
  "split_props \<Rightarrow> rect option \<Rightarrow> real \<Rightarrow> split_state \<Rightarrow> split_state" where
  "handleMouseMove p container clientX s =
     (if isDragging s then
        (case container of
           None \<Rightarrow> s
         | Some r \<Rightarrow>
             let newRatio = js_div (js_sub (Fin clientX) (Fin (rect_left r))) (Fin (rect_width r));
                 clampedRatio = js_max (Fin 0.2) (js_min (Fin 0.8) newRatio)
             in s\<lparr>splitRatio := clampedRatio,
                  notified := (if onSplitRatioChange p then notified s @ [clampedRatio]
                               else notified s)\<rparr>)
      else s)"

definition handleMouseUp :: "split_state \<Rightarrow> split_state" where
  "handleMouseUp s = s\<lparr>isDragging := False\<rparr>"

section \<open>ui/components/ResizableSplitView.tsx\<close>

text \<open>
  The TypeScript split view adds the width constraints, the collapse flags and the drag
  session (\<open>dragStartX\<close>, \<open>dragStartRatio\<close>); it also sets the cursor and the text
  selection style of the document body while a drag is active.
\<close>

record split_props_ts = split_props +
  minLeftWidth :: jsnum
  minRightWidth :: jsnum
  maxLeftWidth :: jsnum
  maxRightWidth :: jsnum

record split_state_ts = split_state +
  isLeftCollapsed :: bool
  isRightCollapsed :: bool
  dragStartX :: real
  dragStartRatio :: jsnum
  bodyCursor :: string
  bodyUserSelect :: string

text \<open>The default values of the optional props.\<close>

definition default_props_ts :: "split_props_ts" where
  "default_props_ts =
     \<lparr>initialSplitRatio = Fin 0.5, onSplitRatioChange = False,
      minLeftWidth = Fin 300, minRightWidth = Fin 300,
      maxLeftWidth = Fin 0.8, maxRightWidth = Fin 0.8\<rparr>"

definition init_ts :: "split_props_ts \<Rightarrow> split_state_ts" where
  "init_ts p =
     \<lparr>splitRatio = initialSplitRatio p, isDragging = False, notified = [],
      isLeftCollapsed = False, isRightCollapsed = False,
      dragStartX = 0, dragStartRatio = Fin 0,
      bodyCursor = [], bodyUserSelect = []\<rparr>"

definition handleMouseDown_ts :: "real \<Rightarrow> split_state_ts \<Rightarrow> split_state_ts" where
  "handleMouseDown_ts clientX s =
     s\<lparr>isDragging := True, dragStartX := clientX, dragStartRatio := splitRatio s,
       bodyCursor := ''col-resize'', bodyUserSelect := ''none''\<rparr>"

text \<open>
  The two halves of \<open>handleMouseMove\<close>: the target ratio
  \<open>dragStartRatio.current + deltaX / containerWidth\<close>, and the block under
  \<open>// Apply constraints\<close>, which clamps with the minimum widths first and with the
  maximum widths second.
\<close>

definition targetRatio :: "split_state_ts \<Rightarrow> jsnum \<Rightarrow> real \<Rightarrow> jsnum" where
  "targetRatio s containerWidth clientX =
     (let deltaX = js_sub (Fin clientX) (Fin (dragStartX s));
          deltaRatio = js_div deltaX containerWidth
      in js_add (dragStartRatio s) deltaRatio)"

definition applyConstraints :: "split_props_ts \<Rightarrow> jsnum \<Rightarrow> jsnum \<Rightarrow> jsnum" where
  "applyConstraints p containerWidth newRatio =
     (let minLeftRatio = js_div (minLeftWidth p) containerWidth;
          minRightRatio = js_div (minRightWidth p) containerWidth;
          maxLeftRatio = (if js_le (maxLeftWidth p) (Fin 1) then maxLeftWidth p
                          else js_div (maxLeftWidth p) containerWidth);
          maxRightRatio = (if js_le (maxRightWidth p) (Fin 1) then maxRightWidth p
                           else js_div (maxRightWidth p) containerWidth);
          newRatio1 = js_max minLeftRatio (js_min (js_sub (Fin 1) minRightRatio) newRatio)
      in js_max (js_sub (Fin 1) maxRightRatio) (js_min maxLeftRatio newRatio1))"

definition handleMouseMove_ts ::
  "split_props_ts \<Rightarrow> rect option \<Rightarrow> real \<Rightarrow> split_state_ts \<Rightarrow> split_state_ts" where
  "handleMouseMove_ts p container clientX s =
     (if isDragging s then
        (case container of
           None \<Rightarrow> s
         | Some r \<Rightarrow>
             let containerWidth = Fin (rect_width r);
                 newRatio = applyConstraints p containerWidth (targetRatio s containerWidth clientX)
             in s\<lparr>splitRatio := newRatio,
                  notified := (if onSplitRatioChange p then notified s @ [newRatio]
                               else notified s)\<rparr>)
      else s)"

definition handleMouseUp_ts :: "split_state_ts \<Rightarrow> split_state_ts" where
  "handleMouseUp_ts s = s\<lparr>isDragging := False, bodyCursor := [], bodyUserSelect := []\<rparr>"


definition toggleLeftPanel :: "split_state_ts \<Rightarrow> split_state_ts" where
  "toggleLeftPanel s =
     (if isLeftCollapsed s then s\<lparr>splitRatio := Fin 0.5, isLeftCollapsed := False\<rparr>
      else s\<lparr>splitRatio := Fin 0.02, isLeftCollapsed := True\<rparr>)"

definition toggleRightPanel :: "split_state_ts \<Rightarrow> split_state_ts" where
  "toggleRightPanel s =
     (if isRightCollapsed s then s\<lparr>splitRatio := Fin 0.5, isRightCollapsed := False\<rparr>
      else s\<lparr>splitRatio := Fin 0.98, isRightCollapsed := True\<rparr>)"

text \<open>
  A run of pointer-move events, each with the container as it is at that event and the
  pointer's \<open>clientX\<close>.
\<close>

fun updates :: "split_props \<Rightarrow> (rect option \<times> real) list \<Rightarrow> split_state \<Rightarrow> split_state" where
  "updates p [] s = s"
| "updates p (m # ms) s = updates p ms (handleMouseMove p (fst m) (snd m) s)"

fun updates_ts ::
  "split_props_ts \<Rightarrow> (rect option \<times> real) list \<Rightarrow> split_state_ts \<Rightarrow> split_state_ts" where
  "updates_ts p [] s = s"
| "updates_ts p (m # ms) s = updates_ts p ms (handleMouseMove_ts p (fst m) (snd m) s)"

section \<open>Event sequences\<close>









section \<open>The ratio bounds in the words of the specification\<close>

text \<open>
  The fractions of the specification, over the reals, for a container of width \<open>w\<close>:
  a minimum width is in pixels; a maximum width is a fraction when it is at most 1 and
  a pixel width otherwise. Clamping to \<open>[lo, hi]\<close> is \<open>max lo (min hi x)\<close>.
\<close>

definition minFrac :: "real \<Rightarrow> real \<Rightarrow> real" where
  "minFrac px w = px / w"

definition maxFrac :: "real \<Rightarrow> real \<Rightarrow> real" where
  "maxFrac m w = (if m \<le> 1 then m else m / w)"

definition clampTo :: "real \<Rightarrow> real \<Rightarrow> real \<Rightarrow> real" where
  "clampTo lo hi x = max lo (min hi x)"

definition spec_UpdateDrag ::
  "real \<Rightarrow> real \<Rightarrow> real \<Rightarrow> real \<Rightarrow> real \<Rightarrow> real \<Rightarrow> real \<Rightarrow> real \<Rightarrow> real" where
  "spec_UpdateDrag minL minR maxL maxR w startRatio startX pointerX =
     clampTo (1 - maxFrac maxR w) (maxFrac maxL w)
       (clampTo (minFrac minL w) (1 - minFrac minR w)
          (startRatio + (pointerX - startX) / w))"

text \<open>A ratio lies within \<open>[lo, hi]\<close> when it is a finite number between the two.\<close>

definition ratio_within :: "real \<Rightarrow> real \<Rightarrow> jsnum \<Rightarrow> bool" where
  "ratio_within lo hi n = (case n of Fin v \<Rightarrow> lo \<le> v \<and> v \<le> hi | _ \<Rightarrow> False)"

section \<open>The host application\<close>

text \<open>
  \<open>App.jsx\<close> and \<open>App.tsx\<close> mount the split view with
  \<open>initialSplitRatio = viewState.splitRatio\<close>, which starts at 0.6, and with a callback
  that stores the reported ratio; the TypeScript view gets the default constraints.
\<close>

definition app_props :: "split_props" where
  "app_props = \<lparr>initialSplitRatio = Fin 0.6, onSplitRatioChange = True\<rparr>"

definition app_props_ts :: "split_props_ts" where
  "app_props_ts = default_props_ts\<lparr>initialSplitRatio := Fin 0.6, onSplitRatioChange := True\<rparr>"

text \<open>
  A maximum width of 1 is the fraction 1: the second clamp is then to \<open>[0, 1]\<close>, which
  is no maximum constraint.
\<close>

definition no_max_props_ts :: "split_props_ts" where
  "no_max_props_ts = app_props_ts\<lparr>maxLeftWidth := Fin 1, maxRightWidth := Fin 1\<rparr>"


text \<open>A mounted container of width \<open>w\<close> at the left edge of the viewport.\<close>

definition window :: "real \<Rightarrow> rect option" where
  "window w = Some \<lparr>rect_left = 0, rect_width = w\<rparr>"

section \<open>Auxiliary facts\<close>

lemma applyConstraints_Fin:
  assumes "minLeftWidth p = Fin a" "minRightWidth p = Fin b"
    "maxLeftWidth p = Fin ml" "maxRightWidth p = Fin mr" "w \<noteq> 0"
  shows "applyConstraints p (Fin w) (Fin x) =
     Fin (clampTo (1 - maxFrac mr w) (maxFrac ml w) (clampTo (minFrac a w) (1 - minFrac b w) x))"
  using assms
  by (simp add: applyConstraints_def js_sub_def clampTo_def maxFrac_def minFrac_def Let_def)

lemma targetRatio_Fin:
  assumes "dragStartRatio s = Fin rstart" "w \<noteq> 0"
  shows "targetRatio s (Fin w) x = Fin (rstart + (x - dragStartX s) / w)"
  using assms by (simp add: targetRatio_def js_sub_def Let_def)

lemma targetRatio_cong:
  "dragStartX s = dragStartX t \<Longrightarrow> dragStartRatio s = dragStartRatio t \<Longrightarrow>
   targetRatio s w x = targetRatio t w x"
  by (simp add: targetRatio_def)

lemma clamp_twice_bounds:
  fixes lo1 hi1 lo2 hi2 x :: real
  assumes "max lo1 lo2 \<le> min hi1 hi2"
  shows "max lo1 lo2 \<le> clampTo lo2 hi2 (clampTo lo1 hi1 x)"
    and "clampTo lo2 hi2 (clampTo lo1 hi1 x) \<le> min hi1 hi2"
  using assms by (auto simp add: clampTo_def)

lemma clamp_twice_fixed:
  fixes lo1 hi1 lo2 hi2 x :: real
  assumes "lo1 \<le> x" "x \<le> hi1" "lo2 \<le> x" "x \<le> hi2"
  shows "clampTo lo2 hi2 (clampTo lo1 hi1 x) = x"
  using assms by (auto simp add: clampTo_def)

lemma updates_ts_frame:
  "isDragging (updates_ts p ms s) = isDragging s
   \<and> dragStartX (updates_ts p ms s) = dragStartX s
   \<and> dragStartRatio (updates_ts p ms s) = dragStartRatio s
   \<and> isLeftCollapsed (updates_ts p ms s) = isLeftCollapsed s
   \<and> isRightCollapsed (updates_ts p ms s) = isRightCollapsed s"
  by (induction ms arbitrary: s)
     (auto simp add: handleMouseMove_ts_def Let_def split: option.splits)

lemma updates_frame: "isDragging (updates p ms s) = isDragging s"
  by (induction ms arbitrary: s)
     (auto simp add: handleMouseMove_def Let_def split: option.splits)

lemma updates_ts_snoc:
  "updates_ts p (ms @ [m]) s = handleMouseMove_ts p (fst m) (snd m) (updates_ts p ms s)"
  by (induction ms arbitrary: s) simp_all

lemma updates_snoc:
  "updates p (ms @ [m]) s = handleMouseMove p (fst m) (snd m) (updates p ms s)"
  by (induction ms arbitrary: s) simp_all

lemma handleMouseMove_ts_ratio:
  "isDragging s \<Longrightarrow>
   splitRatio (handleMouseMove_ts p (Some r) x s) =
     applyConstraints p (Fin (rect_width r)) (targetRatio s (Fin (rect_width r)) x)"
  by (simp add: handleMouseMove_ts_def Let_def)

lemma handleMouseMove_ratio:
  "isDragging s \<Longrightarrow>
   splitRatio (handleMouseMove p (Some r) x s) =
     js_max (Fin 0.2) (js_min (Fin 0.8)
       (js_div (js_sub (Fin x) (Fin (rect_left r))) (Fin (rect_width r))))"
  by (simp add: handleMouseMove_def Let_def)

lemma handleMouseMove_Fin:
  "isDragging s \<Longrightarrow> rect_width r \<noteq> 0 \<Longrightarrow>
   splitRatio (handleMouseMove p (Some r) x s) =
     Fin (clampTo 0.2 0.8 ((x - rect_left r) / rect_width r))"
  by (simp add: handleMouseMove_def Let_def js_sub_def clampTo_def)

lemma app_init_ts:
  "\<not> isLeftCollapsed (init_ts app_props_ts)" "\<not> isRightCollapsed (init_ts app_props_ts)"
  "splitRatio (init_ts app_props_ts) = Fin 0.6" "\<not> isDragging (init_ts app_props_ts)"
  "notified (init_ts app_props_ts) = []" "onSplitRatioChange app_props_ts"
  "minLeftWidth app_props_ts = Fin 300" "minRightWidth app_props_ts = Fin 300"
  "maxLeftWidth app_props_ts = Fin 0.8" "maxRightWidth app_props_ts = Fin 0.8"
  by (simp_all add: init_ts_def app_props_ts_def default_props_ts_def)

lemma no_max_init_ts:
  "splitRatio (init_ts no_max_props_ts) = Fin 0.6"
  "minLeftWidth no_max_props_ts = Fin 300" "minRightWidth no_max_props_ts = Fin 300"
  "maxLeftWidth no_max_props_ts = Fin 1" "maxRightWidth no_max_props_ts = Fin 1"
  by (simp_all add: init_ts_def no_max_props_ts_def app_props_ts_def default_props_ts_def)

lemma app_init:
  "splitRatio (init app_props) = Fin 0.6" "\<not> isDragging (init app_props)"
  "notified (init app_props) = []" "onSplitRatioChange app_props"
  by (simp_all add: init_def app_props_def)

lemma session_ts_frame:
  "isDragging (updates_ts p ms (handleMouseDown_ts xstart tinit))"
  "dragStartX (updates_ts p ms (handleMouseDown_ts xstart tinit)) = xstart"
  "dragStartRatio (updates_ts p ms (handleMouseDown_ts xstart tinit)) = splitRatio tinit"
  by (simp_all add: updates_ts_frame handleMouseDown_ts_def)

lemma session_frame: "isDragging (updates p ms (handleMouseDown sinit))"
  by (simp add: updates_frame handleMouseDown_def)

lemma session_update_ts:
  assumes "minLeftWidth p = Fin a" "minRightWidth p = Fin b"
    "maxLeftWidth p = Fin ml" "maxRightWidth p = Fin mr"
    "splitRatio tinit = Fin rstart" "0 < rect_width r"
  shows "splitRatio (handleMouseMove_ts p (Some r) x (updates_ts p ms (handleMouseDown_ts xstart tinit)))
    = Fin (spec_UpdateDrag a b ml mr (rect_width r) rstart xstart x)"
proof -
  let ?t = "updates_ts p ms (handleMouseDown_ts xstart tinit)"
  have w: "rect_width r \<noteq> 0" using assms(6) by simp
  have "dragStartRatio ?t = Fin rstart" by (simp add: session_ts_frame assms(5))
  then have "targetRatio ?t (Fin (rect_width r)) x = Fin (rstart + (x - xstart) / rect_width r)"
    using targetRatio_Fin [of ?t rstart "rect_width r" x] w by (simp add: session_ts_frame)
  then show ?thesis
    by (simp add: handleMouseMove_ts_ratio session_ts_frame
        applyConstraints_Fin [OF assms(1-4) w] spec_UpdateDrag_def)
qed

lemma clampTo_bounds: "lo \<le> hi \<Longrightarrow> lo \<le> clampTo lo hi x \<and> clampTo lo hi x \<le> hi"
  by (auto simp add: clampTo_def)



lemma applyConstraints_clamped:
  assumes "minLeftWidth p = Fin a" "minRightWidth p = Fin b"
    "maxLeftWidth p = Fin ml" "maxRightWidth p = Fin mr" "w \<noteq> 0" "n \<noteq> NaN"
  shows "\<exists>y. applyConstraints p (Fin w) n =
     Fin (clampTo (1 - maxFrac mr w) (maxFrac ml w) (clampTo (minFrac a w) (1 - minFrac b w) y))"
proof (cases n)
  case (Fin y)
  then show ?thesis using applyConstraints_Fin [OF assms(1-5)] by blast
next
  case PInf
  have "applyConstraints p (Fin w) PInf =
     Fin (clampTo (1 - maxFrac mr w) (maxFrac ml w)
       (clampTo (minFrac a w) (1 - minFrac b w) (1 - minFrac b w)))"
    using assms(1-5)
    by (simp add: applyConstraints_def js_sub_def clampTo_def maxFrac_def minFrac_def Let_def)
  then show ?thesis using PInf by blast
next
  case NInf
  have "applyConstraints p (Fin w) NInf =
     Fin (clampTo (1 - maxFrac mr w) (maxFrac ml w)
       (clampTo (minFrac a w) (1 - minFrac b w) (minFrac a w)))"
    using assms(1-5)
    by (simp add: applyConstraints_def js_sub_def clampTo_def maxFrac_def minFrac_def Let_def)
  then show ?thesis using NInf by blast
next
  case NaN
  then show ?thesis using assms(6) by simp
qed

lemma targetRatio_not_NaN:
  assumes "dragStartRatio s \<noteq> NaN" "w \<noteq> 0"
  shows "targetRatio s (Fin w) x \<noteq> NaN"
  using assms by (cases "dragStartRatio s") (simp_all add: targetRatio_def js_sub_def Let_def)

lemma update_ts_clamped:
  assumes "minLeftWidth p = Fin a" "minRightWidth p = Fin b"
    "maxLeftWidth p = Fin ml" "maxRightWidth p = Fin mr"
    "isDragging t" "dragStartRatio t \<noteq> NaN" "0 < rect_width r"
  shows "\<exists>y. splitRatio (handleMouseMove_ts p (Some r) x t) =
     Fin (clampTo (1 - maxFrac mr (rect_width r)) (maxFrac ml (rect_width r))
       (clampTo (minFrac a (rect_width r)) (1 - minFrac b (rect_width r)) y))"
proof -
  have w: "rect_width r \<noteq> 0" using assms(7) by simp
  show ?thesis
    using applyConstraints_clamped [OF assms(1-4) w targetRatio_not_NaN [OF assms(6) w]]
    by (simp add: handleMouseMove_ts_ratio assms(5))
qed

lemma session_update_ts_clamped:
  assumes "minLeftWidth p = Fin a" "minRightWidth p = Fin b"
    "maxLeftWidth p = Fin ml" "maxRightWidth p = Fin mr"
    "splitRatio tinit \<noteq> NaN" "0 < rect_width r"
  shows "\<exists>y. splitRatio (handleMouseMove_ts p (Some r) x
        (updates_ts p ms (handleMouseDown_ts xstart tinit))) =
     Fin (clampTo (1 - maxFrac mr (rect_width r)) (maxFrac ml (rect_width r))
       (clampTo (minFrac a (rect_width r)) (1 - minFrac b (rect_width r)) y))"
  by (rule update_ts_clamped [OF assms(1-4) _ _ assms(6)])
     (simp_all add: session_ts_frame assms(5))












lemma session_bounds_ts:
  assumes "minLeftWidth p = Fin a" "minRightWidth p = Fin b"
    "maxLeftWidth p = Fin ml" "maxRightWidth p = Fin mr"
    "splitRatio tinit \<noteq> NaN" "0 < rect_width r"
    "max (minFrac a (rect_width r)) (1 - maxFrac mr (rect_width r))
       \<le> min (1 - minFrac b (rect_width r)) (maxFrac ml (rect_width r))"
  shows "ratio_within (max (minFrac a (rect_width r)) (1 - maxFrac mr (rect_width r)))
        (min (1 - minFrac b (rect_width r)) (maxFrac ml (rect_width r)))
        (splitRatio (handleMouseMove_ts p (Some r) x
           (updates_ts p ms (handleMouseDown_ts xstart tinit))))"
proof -
  obtain y where "splitRatio (handleMouseMove_ts p (Some r) x
        (updates_ts p ms (handleMouseDown_ts xstart tinit))) =
     Fin (clampTo (1 - maxFrac mr (rect_width r)) (maxFrac ml (rect_width r))
       (clampTo (minFrac a (rect_width r)) (1 - minFrac b (rect_width r)) y))"
    using session_update_ts_clamped [OF assms(1-6)] by blast
  then show ?thesis
    using clamp_twice_bounds [OF assms(7), of y] by (simp add: ratio_within_def)
qed

lemma session_bounds: 
  "0 < rect_width r \<Longrightarrow>
   ratio_within 0.2 0.8
     (splitRatio (handleMouseMove q (Some r) x (updates q ms (handleMouseDown sinit))))"
  using clampTo_bounds [of "0.2" "0.8"]
  by (simp add: handleMouseMove_Fin session_frame ratio_within_def)


section \<open>Drag updates\<close>

text \<open>
  C1 (as amended). In the TypeScript split view, for every drag session begun by a
  pointer-down at \<open>xstart\<close> on a finite ratio \<open>rstart\<close>, with finite constraints and a
  positive measured width, a drag update stores the ratio at drag start plus
  \<open>(pointerX - xstart) / containerWidth\<close>, clamped first to
  \<open>[minLeftFrac, 1 - minRightFrac]\<close> and then to \<open>[1 - maxRightFrac, maxLeftFrac]\<close>;
  from 0.6, a movement of +200px in a 1000px container has the raw target 0.8. In the
  JSX split view a drag update stores \<open>(pointerX - rect.left) / rect.width\<close> clamped to
  \<open>[0.2, 0.8]\<close>, whatever the drag started from. In both views a drag update is a no-op
  when no drag is active.
\<close>

theorem update_drag:
  assumes "minLeftWidth p = Fin a" "minRightWidth p = Fin b"
    "maxLeftWidth p = Fin ml" "maxRightWidth p = Fin mr"
    "splitRatio tinit = Fin rstart" "0 < rect_width r" "0 < rect_width r'"
  shows "splitRatio (handleMouseMove_ts p (Some r) x (updates_ts p ms (handleMouseDown_ts xstart tinit)))
      = Fin (spec_UpdateDrag a b ml mr (rect_width r) rstart xstart x)
    \<and> (rstart = 0.6 \<longrightarrow> targetRatio (handleMouseDown_ts xstart tinit) (Fin 1000) (xstart + 200) = Fin 0.8)
    \<and> (\<not> isDragging t \<longrightarrow> handleMouseMove_ts p c x t = t)
    \<and> splitRatio (handleMouseMove q (Some r') x' (updates q ms' (handleMouseDown sinit)))
      = Fin (clampTo 0.2 0.8 ((x' - rect_left r') / rect_width r'))
    \<and> (\<not> isDragging s \<longrightarrow> handleMouseMove q c x s = s)"
proof -
  have "targetRatio (handleMouseDown_ts xstart tinit) (Fin 1000) (xstart + 200) = Fin (rstart + 0.2)"
    using assms(5) by (simp add: targetRatio_def js_sub_def handleMouseDown_ts_def)
  moreover have "splitRatio (handleMouseMove q (Some r') x' (updates q ms' (handleMouseDown sinit)))
      = Fin (clampTo 0.2 0.8 ((x' - rect_left r') / rect_width r'))"
    using assms(7) by (simp add: handleMouseMove_Fin session_frame)
  ultimately show ?thesis
    using session_update_ts [OF assms(1-6)]
    by (simp add: handleMouseMove_def handleMouseMove_ts_def)
qed

text \<open>
  In the JSX split view the ratio does not start from the ratio at drag start: with the
  ratio at 0.6 in a 1000px container at the left edge of the viewport, a pointer that
  went down at 601 and moved by +50px to 651 stores 0.651, not 0.6 + 50/1000 = 0.65.
\<close>

theorem update_drag_counterexample:
  "splitRatio (init app_props) = Fin 0.6
   \<and> splitRatio (handleMouseMove app_props (window 1000) 651 (handleMouseDown (init app_props)))
       = Fin 0.651
   \<and> (0.6::real) + (651 - 601) / 1000 = 0.65
   \<and> Fin 0.651 \<noteq> Fin 0.65"
  by (simp add: handleMouseMove_def handleMouseDown_def init_def app_props_def window_def
      js_sub_def Let_def)

theorem update_drag_witness:
  "splitRatio (handleMouseMove_ts app_props_ts (window 1000) 800
       (updates_ts app_props_ts [(window 1000, 650)] (handleMouseDown_ts 600 (init_ts app_props_ts))))
     = Fin 0.7
   \<and> spec_UpdateDrag 300 300 0.8 0.8 1000 0.6 600 800 = 0.7
   \<and> targetRatio (handleMouseDown_ts 600 (init_ts app_props_ts)) (Fin 1000) (600 + 200) = Fin 0.8
   \<and> handleMouseMove_ts app_props_ts (window 1000) 800 (init_ts app_props_ts)
       = init_ts app_props_ts
   \<and> splitRatio (handleMouseMove app_props (window 1000) 800
       (updates app_props [(window 1000, 650)] (handleMouseDown (init app_props))))
     = Fin 0.8
   \<and> handleMouseMove app_props (window 1000) 800 (init app_props) = init app_props"
proof -
  have w: "(0::real) < rect_width \<lparr>rect_left = 0, rect_width = 1000\<rparr>" by simp
  have v: "spec_UpdateDrag 300 300 0.8 0.8 1000 0.6 600 800 = 0.7"
    by (simp add: spec_UpdateDrag_def clampTo_def minFrac_def maxFrac_def)
  from update_drag [OF app_init_ts(7-10) app_init_ts(3) w w,
      where x = 800 and xstart = 600 and ms = "[(window 1000, 650)]"
        and t = "init_ts app_props_ts" and c = "window 1000"
        and q = app_props and x' = 800 and ms' = "[(window 1000, 650)]"
        and sinit = "init app_props" and s = "init app_props"]
  show ?thesis using v
    by (simp add: window_def app_init app_init_ts clampTo_def)
qed

section \<open>Bounds of the ratio after a drag\<close>

text \<open>
  C2 (as amended). In the TypeScript split view, with finite constraints, after any
  sequence of drag updates of a session begun on a ratio that is not \<open>NaN\<close>, whose last
  update measured a positive width \<open>w\<close>, the ratio lies within
  \<open>[max(minLeftFrac, 1 - maxRightFrac), min(1 - minRightFrac, maxLeftFrac)]\<close> taken at
  \<open>w\<close>, provided that interval is not empty. In the JSX split view, after any sequence
  of drag updates of a session whose last update measured a positive width, it lies
  within \<open>[0.2, 0.8]\<close>. With a 1000px container and minimum widths of 300px the TypeScript
  range is \<open>[0.3, 0.7]\<close>, with the default maximum fractions as with none, and a drag
  towards 0.9 stops at 0.7.
\<close>

theorem drag_bounds:
  assumes "minLeftWidth p = Fin a" "minRightWidth p = Fin b"
    "maxLeftWidth p = Fin ml" "maxRightWidth p = Fin mr"
    "splitRatio tinit \<noteq> NaN" "0 < rect_width r"
    "max (minFrac a (rect_width r)) (1 - maxFrac mr (rect_width r))
       \<le> min (1 - minFrac b (rect_width r)) (maxFrac ml (rect_width r))"
    "0 < rect_width r'"
  shows "ratio_within (max (minFrac a (rect_width r)) (1 - maxFrac mr (rect_width r)))
        (min (1 - minFrac b (rect_width r)) (maxFrac ml (rect_width r)))
        (splitRatio (updates_ts p (ms @ [(Some r, x)]) (handleMouseDown_ts xstart tinit)))
    \<and> ratio_within 0.2 0.8
        (splitRatio (updates q (ms' @ [(Some r', x')]) (handleMouseDown sinit)))"
  using session_bounds_ts [OF assms(1-7)] session_bounds [OF assms(8)]
  by (simp add: updates_ts_snoc updates_snoc)

text \<open>
  With the default constraints in a 500px container the interval is empty
  (\<open>[0.6, 0.4]\<close>) and a drag stores 0.6, above the upper bound 0.4. In the JSX split view
  a drag towards 0.9 stops at 0.8, not at 0.7. A session begun on \<open>NaN\<close>, which an update
  at the start position over a container of width 0 has stored before, stores \<open>NaN\<close>
  again in a 1000px container.
\<close>

theorem drag_bounds_counterexample:
  "splitRatio (handleMouseMove_ts default_props_ts (window 500) 300
       (handleMouseDown_ts 250 (init_ts default_props_ts))) = Fin 0.6
   \<and> max (minFrac 300 500) (1 - maxFrac 0.8 500) = 0.6
   \<and> min (1 - minFrac 300 500) (maxFrac 0.8 500) = 0.4
   \<and> \<not> ratio_within 0.6 0.4 (Fin 0.6)
   \<and> splitRatio (handleMouseMove app_props (window 1000) 900 (handleMouseDown (init app_props)))
       = Fin 0.8
   \<and> \<not> ratio_within 0.3 0.7 (Fin 0.8)
   \<and> splitRatio (handleMouseUp_ts (handleMouseMove_ts app_props_ts (window 0) 600
        (handleMouseDown_ts 600 (init_ts app_props_ts)))) = NaN
   \<and> splitRatio (handleMouseMove_ts app_props_ts (window 1000) 700
        (handleMouseDown_ts 600
          (handleMouseUp_ts (handleMouseMove_ts app_props_ts (window 0) 600
            (handleMouseDown_ts 600 (init_ts app_props_ts)))))) = NaN
   \<and> \<not> ratio_within 0.3 0.7 NaN"
  by (simp add: handleMouseMove_ts_def handleMouseDown_ts_def handleMouseUp_ts_def init_ts_def
      default_props_ts_def app_props_ts_def
      window_def applyConstraints_def targetRatio_def js_sub_def Let_def minFrac_def maxFrac_def
      ratio_within_def handleMouseMove_def handleMouseDown_def init_def app_props_def)

theorem drag_bounds_witness:
  "max (minFrac 300 1000) (1 - maxFrac 0.8 1000) = 0.3
   \<and> min (1 - minFrac 300 1000) (maxFrac 0.8 1000) = 0.7
   \<and> ratio_within 0.3 0.7
        (splitRatio (updates_ts app_props_ts ([(window 1000, 650)] @ [(window 1000, 900)])
           (handleMouseDown_ts 600 (init_ts app_props_ts))))
   \<and> splitRatio (updates_ts app_props_ts ([(window 1000, 650)] @ [(window 1000, 900)])
           (handleMouseDown_ts 600 (init_ts app_props_ts))) = Fin 0.7
   \<and> max (minFrac 300 1000) (1 - maxFrac 1 1000) = 0.3
   \<and> min (1 - minFrac 300 1000) (maxFrac 1 1000) = 0.7
   \<and> ratio_within 0.3 0.7
        (splitRatio (updates_ts no_max_props_ts ([] @ [(window 1000, 900)])
           (handleMouseDown_ts 600 (init_ts no_max_props_ts))))
   \<and> splitRatio (updates_ts no_max_props_ts ([] @ [(window 1000, 900)])
           (handleMouseDown_ts 600 (init_ts no_max_props_ts))) = Fin 0.7
   \<and> ratio_within 0.2 0.8
        (splitRatio (updates app_props ([(window 1000, 650)] @ [(window 1000, 900)])
           (handleMouseDown (init app_props))))"
proof -
  have w: "(0::real) < rect_width \<lparr>rect_left = 0, rect_width = 1000\<rparr>" by simp
  have n: "splitRatio (init_ts app_props_ts) \<noteq> NaN" "splitRatio (init_ts no_max_props_ts) \<noteq> NaN"
    by (simp_all add: app_init_ts no_max_init_ts)
  have i: "max (minFrac 300 (rect_width \<lparr>rect_left = 0, rect_width = 1000\<rparr>))
       (1 - maxFrac 0.8 (rect_width \<lparr>rect_left = 0, rect_width = 1000\<rparr>))
     \<le> min (1 - minFrac 300 (rect_width \<lparr>rect_left = 0, rect_width = 1000\<rparr>))
       (maxFrac 0.8 (rect_width \<lparr>rect_left = 0, rect_width = 1000\<rparr>))"
    by (simp add: minFrac_def maxFrac_def)
  have i': "max (minFrac 300 (rect_width \<lparr>rect_left = 0, rect_width = 1000\<rparr>))
       (1 - maxFrac 1 (rect_width \<lparr>rect_left = 0, rect_width = 1000\<rparr>))
     \<le> min (1 - minFrac 300 (rect_width \<lparr>rect_left = 0, rect_width = 1000\<rparr>))
       (maxFrac 1 (rect_width \<lparr>rect_left = 0, rect_width = 1000\<rparr>))"
    by (simp add: minFrac_def maxFrac_def)
  have v: "splitRatio (updates_ts app_props_ts ([(window 1000, 650)] @ [(window 1000, 900)])
           (handleMouseDown_ts 600 (init_ts app_props_ts))) = Fin 0.7"
    by (simp add: handleMouseMove_ts_def handleMouseDown_ts_def app_init_ts
      window_def applyConstraints_def targetRatio_def js_sub_def Let_def)
  have v': "splitRatio (updates_ts no_max_props_ts ([] @ [(window 1000, 900)])
           (handleMouseDown_ts 600 (init_ts no_max_props_ts))) = Fin 0.7"
    by (simp add: handleMouseMove_ts_def handleMouseDown_ts_def no_max_init_ts
      window_def applyConstraints_def targetRatio_def js_sub_def Let_def)
  note a = drag_bounds [OF app_init_ts(7-10) n(1) w i w,
      where ms = "[(window 1000, 650)]" and x = 900 and xstart = 600
        and q = app_props and ms' = "[(window 1000, 650)]" and x' = 900
        and sinit = "init app_props"]
  note b = drag_bounds [OF no_max_init_ts(2-5) n(2) w i' w,
      where ms = "[]" and x = 900 and xstart = 600
        and q = app_props and ms' = "[(window 1000, 650)]" and x' = 900
        and sinit = "init app_props"]
  show ?thesis using a b v v'
    by (simp add: window_def ratio_within_def minFrac_def maxFrac_def)
qed

section \<open>Measuring the container\<close>

text \<open>
  C3 (as amended). The container is measured at every drag update, not at drag start:
  the ratio a drag update stores is computed from the rectangle read at that very
  update and from the drag session's start values, whatever rectangles the earlier
  updates of the session read. A change of the container width in the middle of a drag
  therefore changes the denominator from the next update on.
\<close>

theorem width_measured_per_update:
  assumes "isDragging t" "isDragging s"
  shows "splitRatio (handleMouseMove_ts p (Some r) x (updates_ts p ms t))
      = applyConstraints p (Fin (rect_width r)) (targetRatio t (Fin (rect_width r)) x)
    \<and> splitRatio (handleMouseMove q (Some r') x' (updates q ms' s))
      = js_max (Fin 0.2) (js_min (Fin 0.8)
          (js_div (js_sub (Fin x') (Fin (rect_left r'))) (Fin (rect_width r'))))"
proof -
  have "targetRatio (updates_ts p ms t) (Fin (rect_width r)) x
      = targetRatio t (Fin (rect_width r)) x"
    by (rule targetRatio_cong) (simp_all add: updates_ts_frame)
  then show ?thesis
    using assms by (simp add: handleMouseMove_ts_ratio handleMouseMove_ratio
        updates_ts_frame updates_frame)
qed

text \<open>
  Two updates of one session at the same pointer position, the container growing from
  1000px to 2000px in between: the second update divides by 2000, not by the width of
  the first (0.65 instead of 0.7 in the TypeScript view, 0.35 instead of 0.7 in the JSX
  view).
\<close>

theorem width_measured_per_update_counterexample:
  "splitRatio (handleMouseMove_ts app_props_ts (window 1000) 700
       (handleMouseDown_ts 600 (init_ts app_props_ts))) = Fin 0.7
   \<and> splitRatio (handleMouseMove_ts app_props_ts (window 2000) 700
       (handleMouseMove_ts app_props_ts (window 1000) 700
          (handleMouseDown_ts 600 (init_ts app_props_ts)))) = Fin 0.65
   \<and> splitRatio (handleMouseMove app_props (window 1000) 700
       (handleMouseDown (init app_props))) = Fin 0.7
   \<and> splitRatio (handleMouseMove app_props (window 2000) 700
       (handleMouseMove app_props (window 1000) 700
          (handleMouseDown (init app_props)))) = Fin 0.35"
  by (simp add: handleMouseMove_ts_def handleMouseDown_ts_def init_ts_def app_props_ts_def
      default_props_ts_def window_def applyConstraints_def targetRatio_def js_sub_def Let_def
      handleMouseMove_def handleMouseDown_def init_def app_props_def)

theorem width_measured_per_update_witness:
  "isDragging (handleMouseDown_ts 600 (init_ts app_props_ts))
   \<and> isDragging (handleMouseDown (init app_props))
   \<and> splitRatio (handleMouseMove_ts app_props_ts (Some \<lparr>rect_left = 0, rect_width = 2000\<rparr>) 700
       (updates_ts app_props_ts [(window 1000, 700)]
          (handleMouseDown_ts 600 (init_ts app_props_ts)))) = Fin 0.65
   \<and> splitRatio (handleMouseMove app_props (Some \<lparr>rect_left = 0, rect_width = 2000\<rparr>) 700
       (updates app_props [(window 1000, 700)] (handleMouseDown (init app_props)))) = Fin 0.35"
proof -
  have d: "isDragging (handleMouseDown_ts 600 (init_ts app_props_ts))"
    "isDragging (handleMouseDown (init app_props))"
    by (simp_all add: handleMouseDown_ts_def handleMouseDown_def)
  have t: "targetRatio (handleMouseDown_ts 600 (init_ts app_props_ts))
      (Fin (rect_width \<lparr>rect_left = 0, rect_width = 2000\<rparr>)) 700 = Fin 0.65"
    by (simp add: targetRatio_def js_sub_def handleMouseDown_ts_def app_init_ts)
  have w: "applyConstraints app_props_ts (Fin (rect_width \<lparr>rect_left = 0, rect_width = 2000\<rparr>))
      (Fin 0.65) = Fin 0.65"
    by (simp add: applyConstraints_Fin [OF app_init_ts(7-10)] clampTo_def minFrac_def maxFrac_def)
  from width_measured_per_update [OF d,
      where p = app_props_ts and r = "\<lparr>rect_left = 0, rect_width = 2000\<rparr>" and x = 700
        and ms = "[(window 1000, 700)]"
        and q = app_props and r' = "\<lparr>rect_left = 0, rect_width = 2000\<rparr>" and x' = 700
        and ms' = "[(window 1000, 700)]"]
  show ?thesis using d t w by (simp add: js_sub_def)
qed

section \<open>A drag with no net movement\<close>

text \<open>
  C4 (as amended). In the TypeScript split view, a drag session whose last update has
  the pointer back at its start position (finite constraints and start ratio, positive
  width) ends with the doubly clamped start ratio; this is the ratio before the drag
  whenever that ratio lies within both clamp intervals. In the JSX split view the
  session ends with \<open>(pointerX - rect.left) / rect.width\<close> clamped to \<open>[0.2, 0.8]\<close>.
\<close>

theorem zero_net_drag:
  assumes "minLeftWidth p = Fin a" "minRightWidth p = Fin b"
    "maxLeftWidth p = Fin ml" "maxRightWidth p = Fin mr"
    "splitRatio tinit = Fin rstart" "0 < rect_width r" "0 < rect_width r'"
  shows "splitRatio (handleMouseUp_ts (handleMouseMove_ts p (Some r) xstart
            (updates_ts p ms (handleMouseDown_ts xstart tinit))))
      = Fin (clampTo (1 - maxFrac mr (rect_width r)) (maxFrac ml (rect_width r))
          (clampTo (minFrac a (rect_width r)) (1 - minFrac b (rect_width r)) rstart))
    \<and> (minFrac a (rect_width r) \<le> rstart \<and> rstart \<le> 1 - minFrac b (rect_width r)
        \<and> 1 - maxFrac mr (rect_width r) \<le> rstart \<and> rstart \<le> maxFrac ml (rect_width r)
      \<longrightarrow> splitRatio (handleMouseUp_ts (handleMouseMove_ts p (Some r) xstart
            (updates_ts p ms (handleMouseDown_ts xstart tinit)))) = splitRatio tinit)
    \<and> splitRatio (handleMouseUp (handleMouseMove q (Some r') x'
            (updates q ms' (handleMouseDown sinit))))
      = Fin (clampTo 0.2 0.8 ((x' - rect_left r') / rect_width r'))"
proof -
  have e: "splitRatio (handleMouseUp_ts (handleMouseMove_ts p (Some r) xstart
            (updates_ts p ms (handleMouseDown_ts xstart tinit))))
      = Fin (clampTo (1 - maxFrac mr (rect_width r)) (maxFrac ml (rect_width r))
          (clampTo (minFrac a (rect_width r)) (1 - minFrac b (rect_width r)) rstart))"
    using session_update_ts [OF assms(1-6), of xstart ms xstart]
    by (simp add: handleMouseUp_ts_def spec_UpdateDrag_def)
  have j: "splitRatio (handleMouseUp (handleMouseMove q (Some r') x'
            (updates q ms' (handleMouseDown sinit))))
      = Fin (clampTo 0.2 0.8 ((x' - rect_left r') / rect_width r'))"
    using assms(7) by (simp add: handleMouseUp_def handleMouseMove_Fin session_frame)
  show ?thesis
    using e j assms(5) by (simp add: clamp_twice_fixed)
qed

text \<open>
  In a 600px container the application's initial ratio 0.6 is above \<open>1 - 300/600\<close>:
  pressing and moving the pointer at the same position stores 0.5. In the JSX view,
  pressing and moving at 601 in a 1000px container stores 0.601.
\<close>

theorem zero_net_drag_counterexample:
  "splitRatio (init_ts app_props_ts) = Fin 0.6
   \<and> splitRatio (handleMouseUp_ts (handleMouseMove_ts app_props_ts (window 600) 360
        (handleMouseDown_ts 360 (init_ts app_props_ts)))) = Fin 0.5
   \<and> Fin 0.5 \<noteq> Fin 0.6
   \<and> splitRatio (init app_props) = Fin 0.6
   \<and> splitRatio (handleMouseUp (handleMouseMove app_props (window 1000) 601
        (handleMouseDown (init app_props)))) = Fin 0.601
   \<and> Fin 0.601 \<noteq> Fin 0.6"
  by (simp add: handleMouseMove_ts_def handleMouseDown_ts_def handleMouseUp_ts_def init_ts_def
      app_props_ts_def default_props_ts_def window_def applyConstraints_def targetRatio_def
      js_sub_def Let_def handleMouseMove_def handleMouseDown_def handleMouseUp_def init_def
      app_props_def)

theorem zero_net_drag_witness:
  "splitRatio (handleMouseUp_ts (handleMouseMove_ts app_props_ts
        (Some \<lparr>rect_left = 0, rect_width = 1000\<rparr>) 600
        (updates_ts app_props_ts [(window 1000, 900)]
           (handleMouseDown_ts 600 (init_ts app_props_ts))))) = Fin 0.6
   \<and> splitRatio (init_ts app_props_ts) = Fin 0.6
   \<and> minFrac 300 1000 \<le> 0.6 \<and> 0.6 \<le> 1 - minFrac 300 1000
   \<and> 1 - maxFrac 0.8 1000 \<le> 0.6 \<and> 0.6 \<le> maxFrac 0.8 1000
   \<and> splitRatio (handleMouseUp (handleMouseMove app_props
        (Some \<lparr>rect_left = 0, rect_width = 1000\<rparr>) 600
        (updates app_props [(window 1000, 900)] (handleMouseDown (init app_props))))) = Fin 0.6"
proof -
  have w: "(0::real) < rect_width \<lparr>rect_left = 0, rect_width = 1000\<rparr>" by simp
  from zero_net_drag [OF app_init_ts(7-10) app_init_ts(3) w w,
      where xstart = 600 and ms = "[(window 1000, 900)]"
        and q = app_props and x' = 600 and ms' = "[(window 1000, 900)]"
        and sinit = "init app_props"]
  show ?thesis
    by (simp add: app_init_ts minFrac_def maxFrac_def clampTo_def)
qed

section \<open>Updates while the container cannot be measured\<close>

text \<open>
  C5 (as amended). For every drag update issued while the container is not mounted, the
  update is ignored: the state, and with it the ratio and the callback's call log, is
  unchanged, and the handler raises nothing.
\<close>

theorem unmounted_update_ignored:
  "handleMouseMove q None x s = s \<and> handleMouseMove_ts p None x t = t"
  by (simp add: handleMouseMove_def handleMouseMove_ts_def)

text \<open>
  A measured width of zero is not ignored: the handlers divide by it. From the ratio 0.6
  an update at 700 over a container of width 0 stores 0.8 and reports it to the parent;
  an update at the start position stores \<open>NaN\<close>.
\<close>

theorem zero_width_update_counterexample:
  "splitRatio (handleMouseDown (init app_props)) = Fin 0.6
   \<and> notified (handleMouseDown (init app_props)) = []
   \<and> splitRatio (handleMouseMove app_props (window 0) 700 (handleMouseDown (init app_props)))
       = Fin 0.8
   \<and> notified (handleMouseMove app_props (window 0) 700 (handleMouseDown (init app_props)))
       = [Fin 0.8]
   \<and> splitRatio (handleMouseMove app_props (window 0) 0 (handleMouseDown (init app_props)))
       = NaN
   \<and> splitRatio (handleMouseMove_ts app_props_ts (window 0) 700
        (handleMouseDown_ts 600 (init_ts app_props_ts))) = Fin 0.8
   \<and> notified (handleMouseMove_ts app_props_ts (window 0) 700
        (handleMouseDown_ts 600 (init_ts app_props_ts))) = [Fin 0.8]
   \<and> splitRatio (handleMouseMove_ts app_props_ts (window 0) 600
        (handleMouseDown_ts 600 (init_ts app_props_ts))) = NaN"
  by (simp add: handleMouseMove_ts_def handleMouseDown_ts_def init_ts_def
      app_props_ts_def default_props_ts_def window_def applyConstraints_def targetRatio_def
      js_sub_def Let_def handleMouseMove_def handleMouseDown_def init_def app_props_def)

theorem unmounted_update_ignored_witness:
  "handleMouseMove app_props None 700 (handleMouseDown (init app_props))
     = \<lparr>splitRatio = Fin 0.6, isDragging = True, notified = []\<rparr>
   \<and> handleMouseMove_ts app_props_ts None 700 (handleMouseDown_ts 600 (init_ts app_props_ts))
     = handleMouseDown_ts 600 (init_ts app_props_ts)
   \<and> splitRatio (handleMouseDown_ts 600 (init_ts app_props_ts)) = Fin 0.6
   \<and> notified (handleMouseDown_ts 600 (init_ts app_props_ts)) = []"
  using unmounted_update_ignored [of app_props 700 "handleMouseDown (init app_props)"
      app_props_ts "handleMouseDown_ts 600 (init_ts app_props_ts)"]
  by (simp add: handleMouseDown_def handleMouseDown_ts_def init_def app_props_def app_init_ts)

section \<open>Collapsing a pane\<close>

text \<open>
  C6. In the TypeScript split view, toggling an expanded side stores the sentinel ratio
  (0.02 for the left side, 0.98 for the right side) and marks the side collapsed;
  toggling a collapsed side stores 0.5 and marks it expanded. Hence two toggles of the
  left side in a row, starting expanded, end at 0.5 whatever the ratio was before. (The
  JSX split view has no collapse operation.)
\<close>

theorem toggle_collapse:
  "(\<not> isLeftCollapsed s \<longrightarrow>
      splitRatio (toggleLeftPanel s) = Fin 0.02 \<and> isLeftCollapsed (toggleLeftPanel s))
   \<and> (isLeftCollapsed s \<longrightarrow>
      splitRatio (toggleLeftPanel s) = Fin 0.5 \<and> \<not> isLeftCollapsed (toggleLeftPanel s))
   \<and> (\<not> isRightCollapsed s \<longrightarrow>
      splitRatio (toggleRightPanel s) = Fin 0.98 \<and> isRightCollapsed (toggleRightPanel s))
   \<and> (isRightCollapsed s \<longrightarrow>
      splitRatio (toggleRightPanel s) = Fin 0.5 \<and> \<not> isRightCollapsed (toggleRightPanel s))
   \<and> (\<not> isLeftCollapsed s \<longrightarrow>
      splitRatio (toggleLeftPanel (toggleLeftPanel s)) = Fin 0.5
      \<and> \<not> isLeftCollapsed (toggleLeftPanel (toggleLeftPanel s)))"
  by (simp add: toggleLeftPanel_def toggleRightPanel_def)

theorem toggle_collapse_witness:
  "\<not> isLeftCollapsed (init_ts app_props_ts) \<and> \<not> isRightCollapsed (init_ts app_props_ts)
   \<and> splitRatio (init_ts app_props_ts) = Fin 0.6
   \<and> splitRatio (toggleLeftPanel (init_ts app_props_ts)) = Fin 0.02
   \<and> isLeftCollapsed (toggleLeftPanel (init_ts app_props_ts))
   \<and> splitRatio (toggleRightPanel (init_ts app_props_ts)) = Fin 0.98
   \<and> isRightCollapsed (toggleRightPanel (init_ts app_props_ts))
   \<and> splitRatio (toggleLeftPanel (toggleLeftPanel (init_ts app_props_ts))) = Fin 0.5
   \<and> \<not> isLeftCollapsed (toggleLeftPanel (toggleLeftPanel (init_ts app_props_ts)))
   \<and> splitRatio (toggleRightPanel (toggleRightPanel (init_ts app_props_ts))) = Fin 0.5
   \<and> \<not> isRightCollapsed (toggleRightPanel (toggleRightPanel (init_ts app_props_ts)))"
proof -
  note e = app_init_ts(1-3)
  note a = toggle_collapse [of "init_ts app_props_ts"]
  note b = toggle_collapse [of "toggleLeftPanel (init_ts app_props_ts)"]
  note c = toggle_collapse [of "toggleRightPanel (init_ts app_props_ts)"]
  from e a have a': "splitRatio (toggleLeftPanel (init_ts app_props_ts)) = Fin 0.02"
    "isLeftCollapsed (toggleLeftPanel (init_ts app_props_ts))"
    "splitRatio (toggleRightPanel (init_ts app_props_ts)) = Fin 0.98"
    "isRightCollapsed (toggleRightPanel (init_ts app_props_ts))"
    "splitRatio (toggleLeftPanel (toggleLeftPanel (init_ts app_props_ts))) = Fin 0.5"
    "\<not> isLeftCollapsed (toggleLeftPanel (toggleLeftPanel (init_ts app_props_ts)))"
    by blast+
  from a' b c e show ?thesis by blast
qed

section \<open>The ratio over the lifecycle\<close>




section \<open>Live resize\<close>

text \<open>
  C8. While a drag is active and the container is mounted, every pointer move stores
  the newly clamped ratio in the state and calls the parent's callback (when one was
  supplied) with that same value: the call log grows by exactly the stored ratio. This
  holds in the JSX and in the TypeScript split view.
\<close>

theorem live_resize:
  assumes "isDragging s" "onSplitRatioChange p" "isDragging t" "onSplitRatioChange q"
  shows "notified (handleMouseMove p (Some r) x s)
           = notified s @ [splitRatio (handleMouseMove p (Some r) x s)]
    \<and> splitRatio (handleMouseMove p (Some r) x s)
           = js_max (Fin 0.2) (js_min (Fin 0.8)
               (js_div (js_sub (Fin x) (Fin (rect_left r))) (Fin (rect_width r))))
    \<and> notified (handleMouseMove_ts q (Some r') x' t)
           = notified t @ [splitRatio (handleMouseMove_ts q (Some r') x' t)]
    \<and> splitRatio (handleMouseMove_ts q (Some r') x' t)
           = applyConstraints q (Fin (rect_width r')) (targetRatio t (Fin (rect_width r')) x')"
  using assms by (simp add: handleMouseMove_def handleMouseMove_ts_def Let_def)

theorem live_resize_witness:
  "isDragging (handleMouseDown (init app_props)) \<and> onSplitRatioChange app_props
   \<and> isDragging (handleMouseDown_ts 600 (init_ts app_props_ts))
   \<and> onSplitRatioChange app_props_ts
   \<and> notified (handleMouseMove app_props (Some \<lparr>rect_left = 0, rect_width = 1000\<rparr>) 700
        (handleMouseDown (init app_props))) = [Fin 0.7]
   \<and> splitRatio (handleMouseMove app_props (Some \<lparr>rect_left = 0, rect_width = 1000\<rparr>) 700
        (handleMouseDown (init app_props))) = Fin 0.7
   \<and> notified (handleMouseMove_ts app_props_ts (Some \<lparr>rect_left = 0, rect_width = 1000\<rparr>) 650
        (handleMouseDown_ts 600 (init_ts app_props_ts))) = [Fin 0.65]
   \<and> splitRatio (handleMouseMove_ts app_props_ts (Some \<lparr>rect_left = 0, rect_width = 1000\<rparr>) 650
        (handleMouseDown_ts 600 (init_ts app_props_ts))) = Fin 0.65"
proof -
  have d: "isDragging (handleMouseDown (init app_props))" "onSplitRatioChange app_props"
    "isDragging (handleMouseDown_ts 600 (init_ts app_props_ts))"
    "onSplitRatioChange app_props_ts"
    by (simp_all add: handleMouseDown_def handleMouseDown_ts_def app_init app_init_ts)
  have n: "notified (handleMouseDown (init app_props)) = []"
    "notified (handleMouseDown_ts 600 (init_ts app_props_ts)) = []"
    by (simp_all add: handleMouseDown_def handleMouseDown_ts_def app_init app_init_ts)
  have v: "js_max (Fin 0.2) (js_min (Fin 0.8)
      (js_div (js_sub (Fin 700) (Fin (rect_left \<lparr>rect_left = 0, rect_width = 1000\<rparr>)))
        (Fin (rect_width \<lparr>rect_left = 0, rect_width = 1000\<rparr>)))) = Fin 0.7"
    by (simp add: js_sub_def)
  have t: "targetRatio (handleMouseDown_ts 600 (init_ts app_props_ts))
      (Fin (rect_width \<lparr>rect_left = 0, rect_width = 1000\<rparr>)) 650 = Fin 0.65"
    by (simp add: targetRatio_def js_sub_def handleMouseDown_ts_def app_init_ts)
  have w: "applyConstraints app_props_ts (Fin (rect_width \<lparr>rect_left = 0, rect_width = 1000\<rparr>))
      (Fin 0.65) = Fin 0.65"
    by (simp add: applyConstraints_Fin [OF app_init_ts(7-10)] clampTo_def minFrac_def maxFrac_def)
  from live_resize [OF d, where r = "\<lparr>rect_left = 0, rect_width = 1000\<rparr>" and x = 700
      and r' = "\<lparr>rect_left = 0, rect_width = 1000\<rparr>" and x' = 650]
  show ?thesis using d n v t w by simp
qed

section \<open>Ending a drag\<close>

text \<open>
  C9. The pointer-up handler only clears the drag session: in both split views the
  ratio after it is the ratio before it, the parent's callback is not called, and the
  drag flag is down; in the TypeScript view the collapse flags are untouched and the
  body's cursor and selection styles are restored.
\<close>

theorem end_drag_frame:
  "splitRatio (handleMouseUp s) = splitRatio s
   \<and> notified (handleMouseUp s) = notified s
   \<and> \<not> isDragging (handleMouseUp s)
   \<and> splitRatio (handleMouseUp_ts t) = splitRatio t
   \<and> notified (handleMouseUp_ts t) = notified t
   \<and> \<not> isDragging (handleMouseUp_ts t)
   \<and> isLeftCollapsed (handleMouseUp_ts t) = isLeftCollapsed t
   \<and> isRightCollapsed (handleMouseUp_ts t) = isRightCollapsed t
   \<and> bodyCursor (handleMouseUp_ts t) = [] \<and> bodyUserSelect (handleMouseUp_ts t) = []"
  by (simp add: handleMouseUp_def handleMouseUp_ts_def)

theorem end_drag_frame_witness:
  "splitRatio (handleMouseUp (handleMouseDown (init app_props))) = Fin 0.6
   \<and> notified (handleMouseUp (handleMouseDown (init app_props))) = []
   \<and> \<not> isDragging (handleMouseUp (handleMouseDown (init app_props)))
   \<and> splitRatio (handleMouseUp_ts (handleMouseDown_ts 600 (init_ts app_props_ts))) = Fin 0.6
   \<and> notified (handleMouseUp_ts (handleMouseDown_ts 600 (init_ts app_props_ts))) = []
   \<and> \<not> isDragging (handleMouseUp_ts (handleMouseDown_ts 600 (init_ts app_props_ts)))"
  using end_drag_frame [of "handleMouseDown (init app_props)"
      "handleMouseDown_ts 600 (init_ts app_props_ts)"]
  by (simp add: handleMouseDown_def handleMouseDown_ts_def app_init app_init_ts)

section \<open>What a drag update depends on\<close>

text \<open>
  C10. Drag updates of \<open>handleMouseMove\<close> in the JSX split view are memoryless with respect
  to the drag session: two drag updates, in the same session or in different ones, with
  the same pointer position and the same container rectangle store the same clamped
  ratio, whatever the props, the ratio held before the update and the events since the
  pointer went down; the view keeps no pointer position of the drag start. The stored
  ratio is a function of the pointer position and the rectangle alone.
\<close>

theorem drag_update_memoryless:
  "splitRatio (handleMouseMove q (Some r) x (updates q ms (handleMouseDown sinit)))
     = splitRatio (handleMouseMove q' (Some r) x (updates q' ms' (handleMouseDown sinit')))
   \<and> (isDragging s \<and> isDragging s'
      \<longrightarrow> splitRatio (handleMouseMove q (Some r) x s)
          = splitRatio (handleMouseMove q' (Some r) x s'))
   \<and> splitRatio (handleMouseMove q (Some r) x (updates q ms (handleMouseDown sinit)))
     = js_max (Fin 0.2) (js_min (Fin 0.8)
         (js_div (js_sub (Fin x) (Fin (rect_left r))) (Fin (rect_width r))))"
  by (simp add: handleMouseMove_ratio session_frame)

theorem drag_update_memoryless_witness:
  "splitRatio (init app_props) = Fin 0.6
   \<and> splitRatio (init (app_props\<lparr>initialSplitRatio := Fin 0.3\<rparr>)) = Fin 0.3
   \<and> splitRatio (handleMouseMove app_props (Some \<lparr>rect_left = 240, rect_width = 1000\<rparr>) 940
        (updates app_props [] (handleMouseDown (init app_props)))) = Fin 0.7
   \<and> splitRatio (handleMouseMove app_props (Some \<lparr>rect_left = 240, rect_width = 1000\<rparr>) 940
        (updates app_props [(window 1000, 450), (window 800, 100)]
          (handleMouseDown (init (app_props\<lparr>initialSplitRatio := Fin 0.3\<rparr>))))) = Fin 0.7"
proof -
  have v: "js_max (Fin 0.2) (js_min (Fin 0.8)
      (js_div (js_sub (Fin 940) (Fin (rect_left \<lparr>rect_left = 240, rect_width = 1000\<rparr>)))
        (Fin (rect_width \<lparr>rect_left = 240, rect_width = 1000\<rparr>)))) = Fin 0.7"
    by (simp add: js_sub_def)
  note a = drag_update_memoryless [where q = app_props and q' = app_props
      and r = "\<lparr>rect_left = 240, rect_width = 1000\<rparr>" and x = 940
      and ms = "[]" and sinit = "init app_props"
      and ms' = "[(window 1000, 450), (window 800, 100)]"
      and sinit' = "init (app_props\<lparr>initialSplitRatio := Fin 0.3\<rparr>)"
      and s = "handleMouseDown (init app_props)" and s' = "handleMouseDown (init app_props)"]
  have i: "splitRatio (init app_props) = Fin 0.6"
    "splitRatio (init (app_props\<lparr>initialSplitRatio := Fin 0.3\<rparr>)) = Fin 0.3"
    by (simp_all add: init_def app_props_def)
  from a have eq: "splitRatio (handleMouseMove app_props (Some \<lparr>rect_left = 240, rect_width = 1000\<rparr>) 940
        (updates app_props [] (handleMouseDown (init app_props))))
      = splitRatio (handleMouseMove app_props (Some \<lparr>rect_left = 240, rect_width = 1000\<rparr>) 940
        (updates app_props [(window 1000, 450), (window 800, 100)]
          (handleMouseDown (init (app_props\<lparr>initialSplitRatio := Fin 0.3\<rparr>)))))"
    by blast
  from a have val: "splitRatio (handleMouseMove app_props (Some \<lparr>rect_left = 240, rect_width = 1000\<rparr>) 940
        (updates app_props [] (handleMouseDown (init app_props))))
      = js_max (Fin 0.2) (js_min (Fin 0.8)
      (js_div (js_sub (Fin 940) (Fin (rect_left \<lparr>rect_left = 240, rect_width = 1000\<rparr>)))
        (Fin (rect_width \<lparr>rect_left = 240, rect_width = 1000\<rparr>))))"
    by blast
  from val v have e: "splitRatio (handleMouseMove app_props (Some \<lparr>rect_left = 240, rect_width = 1000\<rparr>) 940
        (updates app_props [] (handleMouseDown (init app_props)))) = Fin 0.7"
    by (rule trans)
  from eq [symmetric] e have e': "splitRatio (handleMouseMove app_props (Some \<lparr>rect_left = 240, rect_width = 1000\<rparr>) 940
        (updates app_props [(window 1000, 450), (window 800, 100)]
          (handleMouseDown (init (app_props\<lparr>initialSplitRatio := Fin 0.3\<rparr>))))) = Fin 0.7"
    by (rule trans)
  from i e e' show ?thesis by blast
qed

end
